theory Spec2Isabelle
  imports Main "HOL-Library.Word"
begin

section \<open>JavaScript values as the chat page sees them\<close>

text \<open>
  The development follows \<^verbatim>\<open>frontend/app/chat/page.tsx\<close>: the React component
  \<^verbatim>\<open>ChatPage\<close>, its handlers \<^verbatim>\<open>handleSend\<close> and \<^verbatim>\<open>handleExecute\<close>, the
  closures \<^verbatim>\<open>onApprove\<close> and \<^verbatim>\<open>onDeny\<close> stored on a message, and the parts of the
  JSX that decide which controls are offered.

  A JavaScript string is a sequence of UTF-16 code units.
\<close>

type_synonym jsstring = "16 word list"

definition lit :: "string \<Rightarrow> jsstring" where
  "lit s = map (\<lambda>c. of_nat (of_char c)) s"

text \<open>
  \<^verbatim>\<open>String.prototype.trim\<close> strips WhiteSpace and LineTerminator code points from both
  ends: TAB, VT, FF, SP, NBSP, ZWNBSP, the Unicode space separators, LF, CR, LS, PS.
\<close>

definition is_ws :: "16 word \<Rightarrow> bool" where
  "is_ws c = (c = 0x09 \<or> c = 0x0A \<or> c = 0x0B \<or> c = 0x0C \<or> c = 0x0D \<or> c = 0x20 \<or>
     c = 0xA0 \<or> c = 0x1680 \<or> (0x2000 \<le> c \<and> c \<le> 0x200A) \<or> c = 0x2028 \<or> c = 0x2029 \<or>
     c = 0x202F \<or> c = 0x205F \<or> c = 0x3000 \<or> c = 0xFEFF)"

definition trim :: "jsstring \<Rightarrow> jsstring" where
  "trim s = rev (dropWhile is_ws (rev (dropWhile is_ws s)))"

text \<open>
  \<^verbatim>\<open>Date.now().toString()\<close>: the decimal digits of a non-negative integer.
\<close>

definition digit :: "nat \<Rightarrow> 16 word" where
  "digit d = of_nat (48 + d)"

function dec :: "nat \<Rightarrow> jsstring" where
  "dec n = (if n < 10 then [digit n] else dec (n div 10) @ [digit (n mod 10)])"
  by pat_completeness auto
termination
  by (relation "measure (\<lambda>n. n)") auto

declare dec.simps [simp del]

text \<open>
  The values that \<^verbatim>\<open>await res.json()\<close> can deliver, together with \<^verbatim>\<open>undefined\<close>,
  which reading a missing property yields. A number is kept as the string that
  \<^verbatim>\<open>ToString\<close> gives for it: the page only tests numbers for truthiness and
  interpolates them into a template literal, and a number is falsy exactly when that
  string is \<^verbatim>\<open>0\<close> or \<^verbatim>\<open>NaN\<close>. An object is the list of its own properties, each
  key once.
\<close>

datatype jsval =
    JUndefined
  | JNull
  | JBool bool
  | JNum jsstring
  | JStr jsstring
  | JArr "jsval list"
  | JObj "(jsstring \<times> jsval) list"

datatype exn = TypeError | SyntaxError | NetworkFailure | ServerError nat | InvalidChild

fun truthy :: "jsval \<Rightarrow> bool" where
  "truthy JUndefined = False"
| "truthy JNull = False"
| "truthy (JBool b) = b"
| "truthy (JNum s) = (s \<noteq> lit ''0'' \<and> s \<noteq> lit ''NaN'')"
| "truthy (JStr s) = (s \<noteq> [])"
| "truthy (JArr xs) = True"
| "truthy (JObj kvs) = True"

text \<open>
  Reading a property \<^verbatim>\<open>v.k\<close>. On \<^verbatim>\<open>undefined\<close> and \<^verbatim>\<open>null\<close> it throws. The page reads
  only \<^verbatim>\<open>content\<close>, \<^verbatim>\<open>trace\<close>, \<^verbatim>\<open>action_required\<close>, \<^verbatim>\<open>label\<close>, \<^verbatim>\<open>params\<close>,
  \<^verbatim>\<open>approval_id\<close> and \<^verbatim>\<open>list_name\<close>, none of which a prototype supplies, so a
  primitive or an array has none of them.
\<close>

fun field :: "jsval \<Rightarrow> jsstring \<Rightarrow> jsval" where
  "field (JObj kvs) k = (case map_of kvs k of None \<Rightarrow> JUndefined | Some v \<Rightarrow> v)"
| "field v k = JUndefined"

definition get_prop :: "jsval \<Rightarrow> jsstring \<Rightarrow> exn + jsval" where
  "get_prop v k = (if v = JUndefined \<or> v = JNull then Inl TypeError else Inr (field v k))"

text \<open>
  \<^verbatim>\<open>ToString\<close>, as a template literal applies it. A plain object gives
  \<^verbatim>\<open>[object Object]\<close> through \<^verbatim>\<open>Object.prototype.toString\<close>, unless it has an own
  property \<^verbatim>\<open>toString\<close>: a parsed value is never callable, \<^verbatim>\<open>valueOf\<close> returns the
  object itself, and the conversion throws a TypeError. An array is joined with commas,
  \<^verbatim>\<open>undefined\<close> and \<^verbatim>\<open>null\<close> elements giving the empty string.
\<close>

fun join_comma :: "jsstring list \<Rightarrow> jsstring" where
  "join_comma [] = []"
| "join_comma [s] = s"
| "join_comma (s # t # r) = s @ lit '','' @ join_comma (t # r)"

fun sequence :: "(exn + 'a) list \<Rightarrow> exn + 'a list" where
  "sequence [] = Inr []"
| "sequence (Inl e # r) = Inl e"
| "sequence (Inr x # r) = (case sequence r of Inl e \<Rightarrow> Inl e | Inr xs \<Rightarrow> Inr (x # xs))"

fun toStr :: "jsval \<Rightarrow> exn + jsstring" where
  "toStr JUndefined = Inr (lit ''undefined'')"
| "toStr JNull = Inr (lit ''null'')"
| "toStr (JBool b) = Inr (if b then lit ''true'' else lit ''false'')"
| "toStr (JNum s) = Inr s"
| "toStr (JStr s) = Inr s"
| "toStr (JArr xs) =
     (case sequence (map (\<lambda>x. if x = JUndefined \<or> x = JNull then Inr [] else toStr x) xs) of
        Inl e \<Rightarrow> Inl e
      | Inr ss \<Rightarrow> Inr (join_comma ss))"
| "toStr (JObj kvs) =
     (if map_of kvs (lit ''toString'') \<noteq> None then Inl TypeError
      else Inr (lit ''[object Object]''))"


text \<open>
  The interface of the chat endpoint declares \<^verbatim>\<open>action_required\<close> as an optional
  object; \<open>is_object\<close> tells the objects from the other values.
\<close>

fun is_object :: "jsval \<Rightarrow> bool" where
  "is_object (JObj kvs) = True"
| "is_object v = False"

section \<open>Messages, component state and requests\<close>

text \<open>
  The type \<^verbatim>\<open>Message\<close>. The two callbacks of \<^verbatim>\<open>actionRequired\<close> are closures; each is
  kept as the values it captured. \<^verbatim>\<open>onDeny\<close> captures \<^verbatim>\<open>msgId\<close>. \<^verbatim>\<open>onApprove\<close>
  captures \<^verbatim>\<open>msgId\<close>, the response \<^verbatim>\<open>data\<close>, and \<^verbatim>\<open>handleExecute\<close>, which is the
  function object of the render in which \<^verbatim>\<open>handleSend\<close> was created and so reads that
  render's constant \<^verbatim>\<open>messages\<close>.
\<close>

datatype role = user | assistant

datatype action_type = approval

datatype deny_fn = DenyFn jsstring

datatype message =
  Message (id_msg: jsstring) (role: role) (content: jsval) (trace: jsval)
          (actionRequired: "action option") (timestamp: nat)
and action =
  Action (type_action: action_type) (label: jsval) (params: jsval)
         (onApprove: approve_fn) (onDeny: deny_fn)
and approve_fn =
  ApproveFn (msgId: jsstring) (data: jsval) (render_messages: "message list")

record state =
  input :: jsstring
  isThinking :: bool
  resolvedActions :: "jsstring set"
  messages :: "message list"

definition welcome_text :: jsstring where
  "welcome_text = lit ''Nexus Agent v1.0 initialized. I'' @ [0x27] @
     lit ''m connected to your Klaviyo account via MCP. '' @ [0x0A, 0x0A] @
     lit ''I can help you analyze performance, build segments, or draft campaigns. What'' @
     [0x27] @ lit ''s the plan?''"

definition initial_state :: "nat \<Rightarrow> state" where
  "initial_state t0 =
     \<lparr>input = [], isThinking = False, resolvedActions = {},
      messages = [Message (lit ''1'') assistant (JStr welcome_text) JUndefined None t0]\<rparr>"

text \<open>
  The argument of \<^verbatim>\<open>fetch\<close>: the URL, the options, and the object handed to
  \<^verbatim>\<open>JSON.stringify\<close> as the body.
\<close>

datatype turn = Turn (turn_role: role) (turn_content: jsval)

record chat_body =
  message :: jsstring
  history :: "turn list"

record request =
  url :: jsstring
  http_method :: jsstring
  content_type :: jsstring
  credentials :: jsstring
  body :: chat_body

definition chat_url :: jsstring where
  "chat_url = lit ''http://localhost:8000/api/chat''"

definition project :: "message list \<Rightarrow> turn list" where
  "project ms = map (\<lambda>m. Turn (role m) (content m)) ms"

definition chat_request :: "jsstring \<Rightarrow> message list \<Rightarrow> request" where
  "chat_request msg ms =
     \<lparr>url = chat_url, http_method = lit ''POST'', content_type = lit ''application/json'',
      credentials = lit ''include'', body = \<lparr>message = msg, history = project ms\<rparr>\<rparr>"

text \<open>
  What \<^verbatim>\<open>await fetch(...)\<close> delivers: the promise rejects, or a response arrives with a
  status and a body that \<^verbatim>\<open>res.json()\<close> parses or rejects.
  \<^verbatim>\<open>response_json\<close> is the start of both try blocks: the await, the
  \<^verbatim>\<open>res.ok\<close> test with its \<^verbatim>\<open>throw\<close>, and \<^verbatim>\<open>await res.json()\<close>.
\<close>

datatype fetch_result = Rejected | Response nat "jsval option"

definition ok :: "nat \<Rightarrow> bool" where
  "ok status = (200 \<le> status \<and> status \<le> 299)"

fun response_json :: "fetch_result \<Rightarrow> exn + jsval" where
  "response_json Rejected = Inl NetworkFailure"
| "response_json (Response status b) =
     (if \<not> ok status then Inl (ServerError status)
      else case b of None \<Rightarrow> Inl SyntaxError | Some d \<Rightarrow> Inr d)"

section \<open>The handlers\<close>

text \<open>
  Every handler takes the clock as \<open>now\<close>: \<open>now k\<close> is what the \<open>k\<close>-th call of
  \<^verbatim>\<open>Date.now()\<close> or \<^verbatim>\<open>new Date()\<close> in that run returns, in evaluation order.

  \<^verbatim>\<open>handleSend\<close> up to \<^verbatim>\<open>await fetch\<close>. It reads \<^verbatim>\<open>input\<close> and \<^verbatim>\<open>messages\<close> of the
  render it belongs to. The result is the new state and, when a request was issued, the
  request with the \<^verbatim>\<open>messages\<close> that the rest of the handler keeps in scope.
\<close>

definition handleSend :: "state \<Rightarrow> (nat \<Rightarrow> nat) \<Rightarrow> state \<times> (request \<times> message list) option" where
  "handleSend st now =
     (if trim (input st) = [] then (st, None)
      else
        let userMsg = Message (dec (now 0)) user (JStr (input st)) JUndefined None (now 1)
        in (st\<lparr>messages := messages st @ [userMsg], input := [], isThinking := True\<rparr>,
            Some (chat_request (input st) (messages st), messages st)))"

definition connection_error :: jsstring where
  "connection_error = [0x26A0, 0xFE0F] @ lit '' Connection Error: I couldn'' @ [0x27] @
     lit ''t reach the Nexus Brain. Is Docker running?''"

definition execution_failed :: jsstring where
  "execution_failed = [0x26A0, 0xFE0F] @
     lit '' Execution Failed: The server encountered an error while processing the approval.''"

definition plain_reply :: "nat \<Rightarrow> jsstring \<Rightarrow> nat \<Rightarrow> message" where
  "plain_reply t c ts = Message (dec t) assistant (JStr c) JUndefined None ts"

text \<open>
  The object literal \<^verbatim>\<open>aiMsg\<close> of \<^verbatim>\<open>handleSend\<close>. \<^verbatim>\<open>msgId\<close> and \<^verbatim>\<open>id\<close> come from
  two calls of \<^verbatim>\<open>Date.now()\<close>; \<^verbatim>\<open>data.content\<close> throws when \<^verbatim>\<open>data\<close> is \<^verbatim>\<open>null\<close>.
\<close>

definition send_reply :: "message list \<Rightarrow> jsval \<Rightarrow> (nat \<Rightarrow> nat) \<Rightarrow> exn + message" where
  "send_reply ms d now =
     (let msgId = dec (now 0 + 1);
          id1 = dec (now 1 + 1)
      in case get_prop d (lit ''content'') of
           Inl e \<Rightarrow> Inl e
         | Inr c \<Rightarrow>
             let tr = (if truthy (field d (lit ''trace'')) then field d (lit ''trace'') else JArr []);
                 ts = now 2;
                 ar = field d (lit ''action_required'')
             in Inr (Message id1 assistant c tr
                  (if truthy ar
                   then Some (Action approval (field ar (lit ''label'')) (field ar (lit ''params''))
                                (ApproveFn msgId d ms) (DenyFn msgId))
                   else None)
                  ts))"

text \<open>
  The rest of \<^verbatim>\<open>handleSend\<close>, run when the fetch settles, on the state of that moment:
  try, catch, finally.
\<close>

definition handleSend_resume :: "message list \<Rightarrow> fetch_result \<Rightarrow> (nat \<Rightarrow> nat) \<Rightarrow> state \<Rightarrow> state" where
  "handleSend_resume ms res now st =
     (let m = (case response_json res of
                 Inl e \<Rightarrow> plain_reply (now 0) connection_error (now 1)
               | Inr d \<Rightarrow>
                   (case send_reply ms d now of
                      Inl e \<Rightarrow> plain_reply (now 2) connection_error (now 3)
                    | Inr aiMsg \<Rightarrow> aiMsg))
      in st\<lparr>messages := messages st @ [m], isThinking := False\<rparr>)"

text \<open>
  The template literals of \<^verbatim>\<open>handleExecute\<close>.
\<close>

definition exec_message :: "jsval \<Rightarrow> jsval \<Rightarrow> exn + jsstring" where
  "exec_message approvalId ps =
     (case toStr approvalId of
        Inl e \<Rightarrow> Inl e
      | Inr a \<Rightarrow>
          let msg = lit ''User approved action '' @ a @ lit ''. Please call execute_action now.''
          in if truthy ps \<and> truthy (field ps (lit ''list_name''))
             then (case toStr (field ps (lit ''list_name'')) of
                     Inl e \<Rightarrow> Inl e
                   | Inr l \<Rightarrow> Inr (msg @ lit '' Fallback Params: list_name='' @ [0x22] @ l @ [0x22]))
             else Inr msg)"

text \<open>
  \<^verbatim>\<open>handleExecute\<close> up to \<^verbatim>\<open>await fetch\<close>; \<open>ms\<close> is the \<^verbatim>\<open>messages\<close> of its render.
  When a template literal throws, catch and finally run at once and nothing is fetched.
\<close>

definition handleExecute :: "message list \<Rightarrow> jsval \<Rightarrow> jsval \<Rightarrow> (nat \<Rightarrow> nat) \<Rightarrow> state \<Rightarrow> state \<times> request option" where
  "handleExecute ms approvalId ps now st =
     (case exec_message approvalId ps of
        Inl e \<Rightarrow>
          (st\<lparr>messages := messages st @ [plain_reply (now 0) execution_failed (now 1)],
              isThinking := False\<rparr>, None)
      | Inr msg \<Rightarrow> (st\<lparr>isThinking := True\<rparr>, Some (chat_request msg ms)))"

definition exec_reply :: "jsval \<Rightarrow> (nat \<Rightarrow> nat) \<Rightarrow> exn + message" where
  "exec_reply d now =
     (let id1 = dec (now 0)
      in case get_prop d (lit ''content'') of
           Inl e \<Rightarrow> Inl e
         | Inr c \<Rightarrow> Inr (Message id1 assistant c (field d (lit ''trace'')) None (now 1)))"

definition handleExecute_resume :: "fetch_result \<Rightarrow> (nat \<Rightarrow> nat) \<Rightarrow> state \<Rightarrow> state" where
  "handleExecute_resume res now st =
     (let m = (case response_json res of
                 Inl e \<Rightarrow> plain_reply (now 0) execution_failed (now 1)
               | Inr d \<Rightarrow>
                   (case exec_reply d now of
                      Inl e \<Rightarrow> plain_reply (now 1) execution_failed (now 2)
                    | Inr aiMsg \<Rightarrow> aiMsg))
      in st\<lparr>messages := messages st @ [m], isThinking := False\<rparr>)"

text \<open>
  The closures. \<^verbatim>\<open>onApprove\<close> records \<^verbatim>\<open>msgId\<close> and calls \<^verbatim>\<open>handleExecute\<close> with
  \<^verbatim>\<open>data.action_required.approval_id\<close> and \<^verbatim>\<open>data.action_required.params\<close>; were
  \<^verbatim>\<open>data.action_required\<close> nullish the read would throw after the first setter.
  \<^verbatim>\<open>onDeny\<close> records \<^verbatim>\<open>msgId\<close> and appends a message.
\<close>

fun run_onApprove :: "approve_fn \<Rightarrow> (nat \<Rightarrow> nat) \<Rightarrow> state \<Rightarrow> state \<times> request option" where
  "run_onApprove (ApproveFn mid d ms) now st =
     (let st1 = st\<lparr>resolvedActions := insert mid (resolvedActions st)\<rparr>
      in case get_prop (field d (lit ''action_required'')) (lit ''approval_id'') of
           Inl e \<Rightarrow> (st1, None)
         | Inr a \<Rightarrow> handleExecute ms a (field (field d (lit ''action_required'')) (lit ''params''))
                      now st1)"

fun run_onDeny :: "deny_fn \<Rightarrow> (nat \<Rightarrow> nat) \<Rightarrow> state \<Rightarrow> state" where
  "run_onDeny (DenyFn mid) now st =
     st\<lparr>resolvedActions := insert mid (resolvedActions st),
        messages := messages st @ [plain_reply (now 0) (lit ''Action cancelled.'') (now 1)]\<rparr>"


section \<open>What the page offers\<close>

text \<open>
  Rendering one message can throw. The JSX places \<^verbatim>\<open>msg.content\<close>,
  \<^verbatim>\<open>msg.actionRequired.label\<close> and every line of \<^verbatim>\<open>msg.trace\<close> as React children.
  React takes strings, numbers, booleans, \<^verbatim>\<open>null\<close>, \<^verbatim>\<open>undefined\<close> and arrays of
  children, and throws on a plain object. A truthy \<^verbatim>\<open>msg.trace\<close> is sent
  \<^verbatim>\<open>.map(...)\<close>, which only an array has: on any other truthy value the call throws a
  TypeError while the component function runs; a falsy \<^verbatim>\<open>msg.trace\<close> is itself the
  child and is harmless.
\<close>

fun renderable :: "jsval \<Rightarrow> bool" where
  "renderable (JObj kvs) = False"
| "renderable (JArr xs) = list_all renderable xs"
| "renderable v = True"

fun map_lines :: "jsval \<Rightarrow> exn + jsval list" where
  "map_lines (JArr xs) = Inr xs"
| "map_lines v = Inl TypeError"

definition render_throws :: "message \<Rightarrow> exn option" where
  "render_throws msg =
     (case (if truthy (trace msg) then map_lines (trace msg) else Inr []) of
        Inl e \<Rightarrow> Some e
      | Inr lines \<Rightarrow>
          if list_all renderable lines \<and> renderable (content msg) \<and>
             (case actionRequired msg of None \<Rightarrow> True | Some a \<Rightarrow> renderable (label a))
          then None else Some InvalidChild)"

text \<open>
  The action card of one message in the JSX, when the message renders: nothing when
  \<^verbatim>\<open>msg.actionRequired\<close> is absent; otherwise the label with the Deny and Approve
  buttons while \<^verbatim>\<open>resolvedActions\<close> lacks \<^verbatim>\<open>msg.id\<close>, and with the badge
  \<^verbatim>\<open>Completed\<close> once it has it.
\<close>

datatype card = NoCard | ApprovalButtons jsval | CompletedBadge jsval

definition render_card :: "jsstring set \<Rightarrow> message \<Rightarrow> exn + card" where
  "render_card resolved msg =
     (case render_throws msg of
        Some e \<Rightarrow> Inl e
      | None \<Rightarrow>
          Inr (case actionRequired msg of
                 None \<Rightarrow> NoCard
               | Some a \<Rightarrow>
                   if id_msg msg \<notin> resolved then ApprovalButtons (label a)
                   else CompletedBadge (label a)))"

text \<open>
  The page maps over all messages in one render, and no error boundary surrounds it:
  when one message throws, React unmounts the component and nothing of the page is
  left.
\<close>

definition page_renders :: "state \<Rightarrow> bool" where
  "page_renders st = list_all (\<lambda>m. render_throws m = None) (messages st)"

text \<open>
  The same condition on a response of the chat endpoint, for the message that
  \<^verbatim>\<open>handleSend\<close> makes of it: \<^verbatim>\<open>content\<close> is a valid child, \<^verbatim>\<open>trace\<close> is falsy
  or an array of valid children, and the label of a truthy \<^verbatim>\<open>action_required\<close> is a
  valid child. A response of the declared interface (strings, and an array of strings)
  satisfies it.
\<close>

definition displayable :: "jsval \<Rightarrow> bool" where
  "displayable d =
     (renderable (field d (lit ''content'')) \<and>
      (if truthy (field d (lit ''trace''))
       then (case map_lines (field d (lit ''trace'')) of
               Inl e \<Rightarrow> False
             | Inr lines \<Rightarrow> list_all renderable lines)
       else True) \<and>
      (if truthy (field d (lit ''action_required''))
       then renderable (field (field d (lit ''action_required'')) (lit ''label''))
       else True))"

text \<open>
  The input area: the \<^verbatim>\<open>disabled\<close> attributes of the text field and of the send
  button, the button's \<^verbatim>\<open>onClick\<close>, and the field's \<^verbatim>\<open>onKeyDown\<close>.
\<close>

definition input_disabled :: "state \<Rightarrow> bool" where
  "input_disabled st = isThinking st"

definition send_disabled :: "state \<Rightarrow> bool" where
  "send_disabled st = (trim (input st) = [] \<or> isThinking st)"

definition onKeyDown :: "state \<Rightarrow> jsstring \<Rightarrow> (nat \<Rightarrow> nat) \<Rightarrow> state \<times> (request \<times> message list) option" where
  "onKeyDown st key now =
     (if key = lit ''Enter'' \<and> \<not> isThinking st then handleSend st now else (st, None))"

section \<open>The page as a transition system\<close>

text \<open>
  A handler that awaits a fetch runs in two parts, and other events can happen in
  between. The world holds the component state, the handlers suspended at their
  \<^verbatim>\<open>await fetch\<close> (for \<^verbatim>\<open>handleSend\<close> with the \<^verbatim>\<open>messages\<close> it keeps in scope), and
  the log of requests issued so far. An event that the page does not offer in the
  current state (a disabled control, a button that is not rendered, a request that is
  not in flight) changes nothing. Once a render has thrown the component is unmounted:
  it offers no control, and the setters that a settling handler calls have no effect.
\<close>

datatype pending = AwaitSend "message list" | AwaitExecute

record world =
  ui :: state
  inflight :: "pending list"
  sent :: "request list"

datatype event =
    Change jsstring
  | ClickSend "nat \<Rightarrow> nat"
  | KeyDown jsstring "nat \<Rightarrow> nat"
  | ClickApprove nat "nat \<Rightarrow> nat"
  | ClickDeny nat "nat \<Rightarrow> nat"
  | Settle nat fetch_result "nat \<Rightarrow> nat"

definition initial_world :: "nat \<Rightarrow> world" where
  "initial_world t0 = \<lparr>ui = initial_state t0, inflight = [], sent = []\<rparr>"

definition after_send :: "world \<Rightarrow> state \<times> (request \<times> message list) option \<Rightarrow> world" where
  "after_send w r =
     (case r of
        (st, None) \<Rightarrow> w\<lparr>ui := st\<rparr>
      | (st, Some (req, ms)) \<Rightarrow>
          w\<lparr>ui := st, inflight := inflight w @ [AwaitSend ms], sent := sent w @ [req]\<rparr>)"

definition after_execute :: "world \<Rightarrow> state \<times> request option \<Rightarrow> world" where
  "after_execute w r =
     (case r of
        (st, None) \<Rightarrow> w\<lparr>ui := st\<rparr>
      | (st, Some req) \<Rightarrow>
          w\<lparr>ui := st, inflight := inflight w @ [AwaitExecute], sent := sent w @ [req]\<rparr>)"

definition offered :: "world \<Rightarrow> nat \<Rightarrow> action option" where
  "offered w i =
     (if page_renders (ui w) \<and> i < length (messages (ui w)) then
        (case actionRequired (messages (ui w) ! i) of
           None \<Rightarrow> None
         | Some a \<Rightarrow>
             if id_msg (messages (ui w) ! i) \<notin> resolvedActions (ui w) then Some a else None)
      else None)"

fun mounted_step :: "world \<Rightarrow> event \<Rightarrow> world" where
  "mounted_step w (Change s) =
     (if input_disabled (ui w) then w else w\<lparr>ui := (ui w)\<lparr>input := s\<rparr>\<rparr>)"
| "mounted_step w (ClickSend now) =
     (if send_disabled (ui w) then w else after_send w (handleSend (ui w) now))"
| "mounted_step w (KeyDown key now) =
     (if input_disabled (ui w) then w else after_send w (onKeyDown (ui w) key now))"
| "mounted_step w (ClickApprove i now) =
     (case offered w i of
        None \<Rightarrow> w
      | Some a \<Rightarrow> after_execute w (run_onApprove (onApprove a) now (ui w)))"
| "mounted_step w (ClickDeny i now) =
     (case offered w i of
        None \<Rightarrow> w
      | Some a \<Rightarrow> w\<lparr>ui := run_onDeny (onDeny a) now (ui w)\<rparr>)"
| "mounted_step w (Settle k res now) =
     (if k < length (inflight w) then
        w\<lparr>ui := (case inflight w ! k of
                    AwaitSend ms \<Rightarrow> handleSend_resume ms res now (ui w)
                  | AwaitExecute \<Rightarrow> handleExecute_resume res now (ui w)),
           inflight := take k (inflight w) @ drop (Suc k) (inflight w)\<rparr>
      else w)"

fun unmounted_step :: "world \<Rightarrow> event \<Rightarrow> world" where
  "unmounted_step w (Settle k res now) =
     (if k < length (inflight w)
      then w\<lparr>inflight := take k (inflight w) @ drop (Suc k) (inflight w)\<rparr> else w)"
| "unmounted_step w e = w"

definition step :: "world \<Rightarrow> event \<Rightarrow> world" where
  "step w e = (if page_renders (ui w) then mounted_step w e else unmounted_step w e)"

definition run :: "world \<Rightarrow> event list \<Rightarrow> world" where
  "run w evs = foldl step w evs"

section \<open>A session used in the examples\<close>

text \<open>
  A clock that reads \<open>t\<close> at the first call and has advanced by one millisecond at every
  later call; responses of the backend, one proposing the creation of a list, one
  whose \<^verbatim>\<open>action_required\<close> is \<^verbatim>\<open>false\<close>, one whose label is an object, and one
  reporting completion; and three sessions that start from the freshly mounted page.
  In each the user types a request and sends it, and the proposal arrives. Then the
  user denies it, or approves it, or sends a second request and approves the first
  proposal while that request is still in flight.
\<close>

definition ticks_once :: "nat \<Rightarrow> nat \<Rightarrow> nat" where
  "ticks_once t k = (if k = 0 then t else t + 1)"

definition vip_params :: jsval where
  "vip_params = JObj [(lit ''list_name'', JStr (lit ''VIP'')), (lit ''threshold'', JNum (lit ''300''))]"

definition descriptor :: jsval where
  "descriptor =
     JObj [(lit ''label'', JStr (lit ''Create list VIP'')),
           (lit ''approval_id'', JStr (lit ''a1'')),
           (lit ''params'', vip_params)]"

definition proposal :: jsval where
  "proposal =
     JObj [(lit ''content'', JStr (lit ''Create the list?'')),
           (lit ''trace'', JArr [JStr (lit ''propose_action'')]),
           (lit ''action_required'', descriptor)]"

definition refusal :: jsval where
  "refusal = JObj [(lit ''content'', JStr (lit ''No action.'')), (lit ''action_required'', JBool False)]"

definition object_label :: jsval where
  "object_label =
     JObj [(lit ''content'', JStr (lit ''Create the list?'')),
           (lit ''action_required'',
            JObj [(lit ''label'', JObj [(lit ''text'', JStr (lit ''Create list VIP''))]),
                  (lit ''approval_id'', JStr (lit ''a1''))])]"

definition done_reply :: jsval where
  "done_reply = JObj [(lit ''content'', JStr (lit ''Done.'')), (lit ''trace'', JArr [])]"

definition greeting :: message where
  "greeting = Message (lit ''1'') assistant (JStr welcome_text) JUndefined None 0"

definition typed :: state where
  "typed = (initial_state 0)\<lparr>input := lit ''make a vip list''\<rparr>"

definition proposal_action :: action where
  "proposal_action =
     Action approval (JStr (lit ''Create list VIP'')) vip_params
       (ApproveFn (lit ''2001'') proposal [greeting]) (DenyFn (lit ''2001''))"

definition proposal_card :: message where
  "proposal_card =
     Message (lit ''2002'') assistant (JStr (lit ''Create the list?''))
       (JArr [JStr (lit ''propose_action'')]) (Some proposal_action) 2001"

definition proposed :: "event list" where
  "proposed =
     [Change (lit ''make a vip list''), ClickSend (ticks_once 1000),
      Settle 0 (Response 200 (Some proposal)) (ticks_once 2000)]"

definition denied :: "event list" where
  "denied = proposed @ [ClickDeny 2 (ticks_once 3000)]"

definition approved :: "event list" where
  "approved = proposed @ [ClickApprove 2 (ticks_once 3000)]"


section \<open>Facts about strings and values\<close>

lemma unat_lit_char: "unat (of_nat (of_char c) :: 16 word) = of_char c"
proof -
  have "(of_char c :: nat) < 2 ^ 16"
    by (rule less_trans [OF nat_of_char_less_256]) simp
  then show ?thesis by (simp add: unat_of_nat)
qed

lemma lit_eq_iff [simp]: "lit a = lit b \<longleftrightarrow> a = b"
proof
  assume "lit a = lit b"
  then have "map unat (lit a) = map unat (lit b)" by simp
  then have "map (of_char :: char \<Rightarrow> nat) a = map of_char b"
    by (simp add: lit_def unat_lit_char comp_def)
  then show "a = b"
    using inj_of_char by (metis inj_map_eq_map)
qed simp

lemma lit_Nil_iff [simp]: "lit a = [] \<longleftrightarrow> a = []" "[] = lit a \<longleftrightarrow> a = []"
  by (auto simp: lit_def)



lemma truthy_field: "truthy (field q k) \<Longrightarrow> truthy q"
  by (cases q) simp_all

text \<open>
  Interpolation never throws on a primitive, so never on an approval id or a list name
  of the declared type \<^verbatim>\<open>string\<close>.
\<close>

lemma toStr_primitive:
  "\<not> is_object v \<Longrightarrow> (\<forall>xs. v \<noteq> JArr xs) \<Longrightarrow> \<exists>s. toStr v = Inr s"
  by (cases v) simp_all

lemma dec_examples:
  "dec 1000 = lit ''1000''" "dec 2001 = lit ''2001''" "dec 2002 = lit ''2002''"
  "dec 3000 = lit ''3000''" "dec 5000 = lit ''5000''"
  by (simp_all add: dec.simps lit_def digit_def)

lemma trim_examples:
  "trim (lit ''make a vip list'') \<noteq> []" "trim (lit ''and a campaign'') \<noteq> []"
  "trim (lit ''hello'') \<noteq> []"
  by (simp_all add: trim_def lit_def is_ws_def)

section \<open>Facts about the handlers\<close>

lemma response_json_failure:
  "res = Rejected \<or> (\<exists>s b. res = Response s b \<and> \<not> ok s) \<Longrightarrow> \<exists>e. response_json res = Inl e"
  by auto

lemma send_reply_action:
  "send_reply ms d now = Inr m \<Longrightarrow>
   actionRequired m =
     (if truthy (field d (lit ''action_required''))
      then Some (Action approval (field (field d (lit ''action_required'')) (lit ''label''))
             (field (field d (lit ''action_required'')) (lit ''params''))
             (ApproveFn (dec (now 0 + 1)) d ms) (DenyFn (dec (now 0 + 1))))
      else None)"
  by (auto simp: send_reply_def Let_def split: sum.splits)

lemma send_reply_id: "send_reply ms d now = Inr m \<Longrightarrow> id_msg m = dec (now 1 + 1)"
  by (auto simp: send_reply_def Let_def split: sum.splits)

text \<open>
  Whatever the fetch delivers, each handler appends one assistant message and clears
  \<^verbatim>\<open>isThinking\<close>: try, catch and finally leave no other way out.
\<close>

lemma handlers_always_reply:
  "\<exists>m. handleSend_resume ms res now st = st\<lparr>messages := messages st @ [m], isThinking := False\<rparr>
        \<and> role m = assistant"
  "\<exists>m. handleExecute_resume res now st = st\<lparr>messages := messages st @ [m], isThinking := False\<rparr>
        \<and> role m = assistant"
  by (auto simp: handleSend_resume_def handleExecute_resume_def send_reply_def exec_reply_def
      plain_reply_def Let_def split: sum.splits)

text \<open>
  The card of a proposal shows the badge after either click when the two readings of
  the clock that give \<^verbatim>\<open>msgId\<close> and \<^verbatim>\<open>id\<close> agree.
\<close>

lemma card_completed_when_ids_agree:
  assumes "send_reply ms d now = Inr m" and "actionRequired m = Some act" and "now 0 = now 1"
    and "render_throws m = None"
  shows "render_card (resolvedActions (run_onDeny (onDeny act) now' st)) m
           = Inr (CompletedBadge (label act))"
    and "render_card (resolvedActions (fst (run_onApprove (onApprove act) now' st))) m
           = Inr (CompletedBadge (label act))"
proof -
  have tr: "truthy (field d (lit ''action_required''))"
    using send_reply_action [OF assms(1)] assms(2) by (auto split: if_splits)
  have act: "onDeny act = DenyFn (id_msg m)" "onApprove act = ApproveFn (id_msg m) d ms"
    using send_reply_action [OF assms(1)] send_reply_id [OF assms(1)] assms(2,3) tr by auto
  show "render_card (resolvedActions (run_onDeny (onDeny act) now' st)) m
          = Inr (CompletedBadge (label act))"
    by (simp add: act render_card_def assms(2,4))
  show "render_card (resolvedActions (fst (run_onApprove (onApprove act) now' st))) m
           = Inr (CompletedBadge (label act))"
    by (simp add: act render_card_def assms(2,4) get_prop_def handleExecute_def Let_def
        split: sum.splits)
qed

lemma offered_render:
  "page_renders (ui w) \<Longrightarrow> i < length (messages (ui w)) \<Longrightarrow>
   render_card (resolvedActions (ui w)) (messages (ui w) ! i) = Inr (ApprovalButtons lbl) \<Longrightarrow>
   \<exists>a. offered w i = Some a"
  by (auto simp: offered_def render_card_def split: option.splits if_splits)

lemma step_mounted: "page_renders (ui w) \<Longrightarrow> step w e = mounted_step w e"
  by (simp add: step_def)

lemma render_throws_plain [simp]: "render_throws (Message i r (JStr c) JUndefined None t) = None"
  by (simp add: render_throws_def)

lemma render_throws_text [simp]: "render_throws (Message i r (JStr c) (JArr []) None t) = None"
  by (simp add: render_throws_def)

lemma render_throws_plain_reply [simp]: "render_throws (plain_reply t c ts) = None"
  by (simp add: plain_reply_def)

lemma page_renders_append:
  "page_renders (st\<lparr>messages := messages st @ [m], isThinking := b\<rparr>)
     \<longleftrightarrow> page_renders st \<and> render_throws m = None"
  by (auto simp: page_renders_def)

section \<open>The example sessions, evaluated\<close>

lemma run_append: "run w (xs @ ys) = run (run w xs) ys"
  by (simp add: run_def)

lemma run_Cons: "run w (e # es) = run (step w e) es" "run w [] = w"
  by (simp_all add: run_def)

lemma send_reply_proposal: "send_reply [greeting] proposal (ticks_once 2000) = Inr proposal_card"
  by (simp add: send_reply_def proposal_def descriptor_def get_prop_def Let_def ticks_once_def
      dec_examples proposal_card_def proposal_action_def)

lemma proposal_card_sel:
  "id_msg proposal_card = lit ''2002''" "role proposal_card = assistant"
  "content proposal_card = JStr (lit ''Create the list?'')"
  "trace proposal_card = JArr [JStr (lit ''propose_action'')]"
  "actionRequired proposal_card = Some proposal_action"
  "label proposal_action = JStr (lit ''Create list VIP'')"
  "onApprove proposal_action = ApproveFn (lit ''2001'') proposal [greeting]"
  "onDeny proposal_action = DenyFn (lit ''2001'')"
  by (simp_all add: proposal_card_def proposal_action_def)

lemma render_throws_examples [simp]:
  "render_throws greeting = None" "render_throws proposal_card = None"
  by (simp_all add: greeting_def render_throws_def proposal_card_def proposal_action_def)

lemma run_proposed:
  "run (initial_world 0) proposed =
     \<lparr>ui = \<lparr>input = [], isThinking = False, resolvedActions = {},
             messages = [greeting,
                         Message (lit ''1000'') user (JStr (lit ''make a vip list'')) JUndefined None 1001,
                         proposal_card]\<rparr>,
      inflight = [],
      sent = [chat_request (lit ''make a vip list'') [greeting]]\<rparr>"
  by (simp add: run_def proposed_def initial_world_def initial_state_def input_disabled_def
      send_disabled_def trim_examples handleSend_def after_send_def ticks_once_def dec_examples
      handleSend_resume_def ok_def send_reply_proposal Let_def step_def page_renders_def
      greeting_def [symmetric])

lemma page_renders_proposed: "page_renders (ui (run (initial_world 0) proposed))"
  by (simp add: run_proposed page_renders_def)

section \<open>The claims\<close>



text \<open>
  Claim C2. For every approval card that the page renders with its buttons, a click on Deny
  appends exactly one assistant message with the content \<^verbatim>\<open>Action cancelled.\<close>, issues
  no request (the log of requests and the requests in flight are as before), and leaves
  the messages that were there unchanged.
\<close>

theorem deny_appends_cancelled_without_request:
  assumes "page_renders (ui w)"
    and "i < length (messages (ui w))"
    and "render_card (resolvedActions (ui w)) (messages (ui w) ! i) = Inr (ApprovalButtons lbl)"
  shows "messages (ui (step w (ClickDeny i now))) =
           messages (ui w) @
           [Message (dec (now 0)) assistant (JStr (lit ''Action cancelled.'')) JUndefined None (now 1)]
         \<and> sent (step w (ClickDeny i now)) = sent w
         \<and> inflight (step w (ClickDeny i now)) = inflight w
         \<and> isThinking (ui (step w (ClickDeny i now))) = isThinking (ui w)
         \<and> input (ui (step w (ClickDeny i now))) = input (ui w)"
proof -
  obtain a where a: "offered w i = Some a"
    using offered_render [OF assms] by blast
  obtain mid where mid: "onDeny a = DenyFn mid"
    by (cases "onDeny a") simp
  show ?thesis
    by (simp add: step_mounted [OF assms(1)] a mid plain_reply_def)
qed

theorem deny_appends_cancelled_without_request_witness:
  "page_renders (ui (run (initial_world 0) proposed))
   \<and> render_card (resolvedActions (ui (run (initial_world 0) proposed)))
     (messages (ui (run (initial_world 0) proposed)) ! 2)
       = Inr (ApprovalButtons (JStr (lit ''Create list VIP'')))
   \<and> messages (ui (step (run (initial_world 0) proposed) (ClickDeny 2 (ticks_once 3000)))) =
       messages (ui (run (initial_world 0) proposed)) @
       [Message (lit ''3000'') assistant (JStr (lit ''Action cancelled.'')) JUndefined None 3001]
   \<and> sent (step (run (initial_world 0) proposed) (ClickDeny 2 (ticks_once 3000))) =
       sent (run (initial_world 0) proposed)"
proof -
  have h1: "2 < length (messages (ui (run (initial_world 0) proposed)))"
    by (simp add: run_proposed)
  have h2: "render_card (resolvedActions (ui (run (initial_world 0) proposed)))
     (messages (ui (run (initial_world 0) proposed)) ! 2)
       = Inr (ApprovalButtons (JStr (lit ''Create list VIP'')))"
    by (simp add: run_proposed render_card_def proposal_card_sel)
  note h0 = page_renders_proposed
  show ?thesis
    using h0 h2 deny_appends_cancelled_without_request [OF h0 h1 h2, of "ticks_once 3000"]
    by (simp add: ticks_once_def dec_examples)
qed

text \<open>
  Claim C3. Once the user has clicked Approve or Deny on a card, the card should show
  the badge and never offer the buttons again; this needs the \<^verbatim>\<open>msgId\<close> recorded in
  \<^verbatim>\<open>resolvedActions\<close> to be the \<^verbatim>\<open>id\<close> of the rendered message. \<^verbatim>\<open>handleSend\<close>
  computes the two from two calls of \<^verbatim>\<open>Date.now()\<close>. In the session \<open>denied\<close> the
  clock advances by one millisecond between them: the message has the id \<^verbatim>\<open>2002\<close>,
  the click on Deny records \<^verbatim>\<open>2001\<close>, and the card still offers both buttons.
  (\<open>card_completed_when_ids_agree\<close> is the case where the two readings agree.)
\<close>

theorem deny_leaves_buttons_when_clock_ticks:
  "id_msg (messages (ui (run (initial_world 0) denied)) ! 2) = lit ''2002''
   \<and> resolvedActions (ui (run (initial_world 0) denied)) = {lit ''2001''}
   \<and> page_renders (ui (run (initial_world 0) denied))
   \<and> render_card (resolvedActions (ui (run (initial_world 0) denied)))
        (messages (ui (run (initial_world 0) denied)) ! 2)
      = Inr (ApprovalButtons (JStr (lit ''Create list VIP'')))
   \<and> offered (run (initial_world 0) denied) 2 = Some proposal_action"
  by (simp add: denied_def run_append run_proposed run_Cons step_def page_renders_def offered_def
      render_card_def proposal_card_sel)

text \<open>
  Claim C4. Every chat request has the body \<^verbatim>\<open>{message, history}\<close>: on the send path
  the message is the input and the history the projected messages; on the execute path
  the message is the synthetic text. From a parsed response \<open>d\<close> the send path reads
  \<^verbatim>\<open>content\<close>, \<^verbatim>\<open>trace\<close> and \<^verbatim>\<open>action_required\<close>, and \<^verbatim>\<open>action_required\<close>, when
  present, supplies the card's \<^verbatim>\<open>label\<close> and \<^verbatim>\<open>params\<close> and the \<^verbatim>\<open>approval_id\<close> and
  \<^verbatim>\<open>params\<close> that Approve passes on; the execute path reads \<^verbatim>\<open>content\<close> and \<^verbatim>\<open>trace\<close>.
\<close>

theorem chat_request_and_response_shape:
  assumes "trim (input st) \<noteq> []"
    and "exec_message a ps = Inr txt"
    and "d \<noteq> JUndefined" and "d \<noteq> JNull"
  shows "(\<exists>st' req. handleSend st now = (st', Some (req, messages st))
            \<and> body req = \<lparr>message = input st, history = project (messages st)\<rparr>)
         \<and> (\<exists>st' req. handleExecute ms a ps now st = (st', Some req)
            \<and> body req = \<lparr>message = txt, history = project ms\<rparr>)
         \<and> (\<exists>m. send_reply ms d now = Inr m
            \<and> content m = field d (lit ''content'')
            \<and> trace m = (if truthy (field d (lit ''trace'')) then field d (lit ''trace'') else JArr [])
            \<and> actionRequired m =
                (if truthy (field d (lit ''action_required''))
                 then Some (Action approval (field (field d (lit ''action_required'')) (lit ''label''))
                        (field (field d (lit ''action_required'')) (lit ''params''))
                        (ApproveFn (dec (now 0 + 1)) d ms) (DenyFn (dec (now 0 + 1))))
                 else None)
            \<and> (if truthy (field d (lit ''action_required''))
                then run_onApprove (ApproveFn (dec (now 0 + 1)) d ms) now st =
                     handleExecute ms (field (field d (lit ''action_required'')) (lit ''approval_id''))
                       (field (field d (lit ''action_required'')) (lit ''params'')) now
                       (st\<lparr>resolvedActions := insert (dec (now 0 + 1)) (resolvedActions st)\<rparr>)
                else True))
         \<and> (\<exists>m. exec_reply d now = Inr m
            \<and> content m = field d (lit ''content'') \<and> trace m = field d (lit ''trace''))"
proof -
  have 1: "\<exists>st' req. handleSend st now = (st', Some (req, messages st))
            \<and> body req = \<lparr>message = input st, history = project (messages st)\<rparr>"
    using assms(1) by (simp add: handleSend_def Let_def chat_request_def)
  have 2: "\<exists>st' req. handleExecute ms a ps now st = (st', Some req)
            \<and> body req = \<lparr>message = txt, history = project ms\<rparr>"
    using assms(2) by (simp add: handleExecute_def chat_request_def)
  have 3: "\<exists>m. exec_reply d now = Inr m
            \<and> content m = field d (lit ''content'') \<and> trace m = field d (lit ''trace'')"
    using assms(3,4) by (simp add: exec_reply_def get_prop_def Let_def)
  have 4: "truthy (field d (lit ''action_required'')) \<Longrightarrow>
      run_onApprove (ApproveFn (dec (now 0 + 1)) d ms) now st =
        handleExecute ms (field (field d (lit ''action_required'')) (lit ''approval_id''))
          (field (field d (lit ''action_required'')) (lit ''params'')) now
          (st\<lparr>resolvedActions := insert (dec (now 0 + 1)) (resolvedActions st)\<rparr>)"
    by (auto simp: get_prop_def Let_def)
  have 5: "\<exists>m. send_reply ms d now = Inr m
            \<and> content m = field d (lit ''content'')
            \<and> trace m = (if truthy (field d (lit ''trace'')) then field d (lit ''trace'') else JArr [])
            \<and> actionRequired m =
                (if truthy (field d (lit ''action_required''))
                 then Some (Action approval (field (field d (lit ''action_required'')) (lit ''label''))
                        (field (field d (lit ''action_required'')) (lit ''params''))
                        (ApproveFn (dec (now 0 + 1)) d ms) (DenyFn (dec (now 0 + 1))))
                 else None)"
    using assms(3,4) by (simp add: send_reply_def get_prop_def Let_def)
  show ?thesis
    using 1 2 3 4 5 by (auto split: if_splits)
qed

theorem chat_request_and_response_shape_witness:
  "trim (input typed) \<noteq> []
   \<and> exec_message (JStr (lit ''a1'')) vip_params =
       Inr (lit ''User approved action a1. Please call execute_action now.'' @
            lit '' Fallback Params: list_name='' @ [0x22] @ lit ''VIP'' @ [0x22])
   \<and> (\<exists>st' req. handleSend typed (ticks_once 1000) = (st', Some (req, [greeting]))
        \<and> body req = \<lparr>message = lit ''make a vip list'', history = [Turn assistant (JStr welcome_text)]\<rparr>)
   \<and> (\<exists>st' req. handleExecute [greeting] (JStr (lit ''a1'')) vip_params (ticks_once 1000) typed
                   = (st', Some req)
        \<and> history (body req) = [Turn assistant (JStr welcome_text)])
   \<and> (\<exists>m. send_reply [greeting] proposal (ticks_once 1000) = Inr m
        \<and> content m = JStr (lit ''Create the list?'')
        \<and> trace m = JArr [JStr (lit ''propose_action'')])"
proof -
  have h1: "trim (input typed) \<noteq> []"
    by (simp add: typed_def trim_examples)
  have h2: "exec_message (JStr (lit ''a1'')) vip_params =
       Inr (lit ''User approved action a1. Please call execute_action now.'' @
            lit '' Fallback Params: list_name='' @ [0x22] @ lit ''VIP'' @ [0x22])"
    by (simp add: exec_message_def vip_params_def Let_def lit_def)
  have h3: "proposal \<noteq> JUndefined" and h4: "proposal \<noteq> JNull"
    by (simp_all add: proposal_def)
  have m: "messages typed = [greeting]" "input typed = lit ''make a vip list''"
    by (simp_all add: typed_def initial_state_def greeting_def)
  have f: "field proposal (lit ''content'') = JStr (lit ''Create the list?'')"
    "field proposal (lit ''trace'') = JArr [JStr (lit ''propose_action'')]"
    by (simp_all add: proposal_def)
  have p: "project [greeting] = [Turn assistant (JStr welcome_text)]"
    by (simp add: project_def greeting_def)
  note t = chat_request_and_response_shape [OF h1 h2 h3 h4, of "ticks_once 1000" "[greeting]",
      unfolded m p f]
  show ?thesis
    using h1 h2 t by auto
qed

text \<open>
  Claim C5. When a chat or execute request fails, by a network error or a status
  outside 200 to 299, the handler appends an assistant message with the labeled text
  (the warning sign followed by \<^verbatim>\<open>Connection Error\<close> or \<^verbatim>\<open>Execution Failed\<close>) and
  clears \<^verbatim>\<open>isThinking\<close>. The result is a state: the catch block takes every exception,
  and the reply is there and not empty (\<open>handlers_always_reply\<close> has the same for every
  outcome of the fetch).
\<close>

theorem failed_request_gives_labeled_error:
  assumes "res = Rejected \<or> (\<exists>s b. res = Response s b \<and> \<not> ok s)"
  shows "handleSend_resume ms res now st =
           st\<lparr>messages := messages st @
                  [Message (dec (now 0)) assistant (JStr connection_error) JUndefined None (now 1)],
              isThinking := False\<rparr>
         \<and> handleExecute_resume res now st =
           st\<lparr>messages := messages st @
                  [Message (dec (now 0)) assistant (JStr execution_failed) JUndefined None (now 1)],
              isThinking := False\<rparr>
         \<and> (\<exists>r. connection_error = [0x26A0, 0xFE0F] @ lit '' Connection Error'' @ r)
         \<and> (\<exists>r. execution_failed = [0x26A0, 0xFE0F] @ lit '' Execution Failed'' @ r)"
proof -
  obtain e where e: "response_json res = Inl e"
    using response_json_failure [OF assms] by blast
  have 1: "\<exists>r. connection_error = [0x26A0, 0xFE0F] @ lit '' Connection Error'' @ r"
    by (simp add: connection_error_def lit_def)
  have 2: "\<exists>r. execution_failed = [0x26A0, 0xFE0F] @ lit '' Execution Failed'' @ r"
    by (simp add: execution_failed_def lit_def)
  show ?thesis
    using 1 2 by (simp add: handleSend_resume_def handleExecute_resume_def e plain_reply_def)
qed

theorem failed_request_gives_labeled_error_witness:
  "\<not> ok 503
   \<and> messages (handleSend_resume [greeting] (Response 503 None) (ticks_once 3000) typed) =
       [greeting, Message (lit ''3000'') assistant (JStr connection_error) JUndefined None 3001]
   \<and> \<not> isThinking (handleSend_resume [greeting] (Response 503 None) (ticks_once 3000) typed)
   \<and> messages (handleExecute_resume (Response 503 None) (ticks_once 3000) typed) =
       [greeting, Message (lit ''3000'') assistant (JStr execution_failed) JUndefined None 3001]
   \<and> \<not> isThinking (handleExecute_resume (Response 503 None) (ticks_once 3000) typed)"
proof -
  have n: "\<not> ok 503"
    by (simp add: ok_def)
  then have h: "Response 503 None = Rejected \<or> (\<exists>s b. Response 503 None = Response s b \<and> \<not> ok s)"
    by blast
  have m: "messages typed = [greeting]"
    by (simp add: typed_def initial_state_def greeting_def)
  show ?thesis
    using n failed_request_gives_labeled_error [OF h, of "[greeting]" "ticks_once 3000" typed]
    by (simp add: m ticks_once_def dec_examples)
qed

text \<open>
  Claim C6. Every request should carry as history the current list of messages,
  projected to \<^verbatim>\<open>role\<close> and \<^verbatim>\<open>content\<close>. \<^verbatim>\<open>handleSend\<close> does so (see C4). The
  \<^verbatim>\<open>handleExecute\<close> that \<^verbatim>\<open>onApprove\<close> calls belongs to the render in which the
  proposing \<^verbatim>\<open>handleSend\<close> was created, and projects that render's \<^verbatim>\<open>messages\<close>. In
  the session \<open>approved\<close> the page shows three messages when the user clicks Approve,
  and the history of the execute request holds the greeting alone: the user's request
  and the proposal are missing.
\<close>

theorem approve_sends_stale_history:
  "project (messages (ui (run (initial_world 0) proposed))) =
     [Turn assistant (JStr welcome_text), Turn user (JStr (lit ''make a vip list'')),
      Turn assistant (JStr (lit ''Create the list?''))]
   \<and> messages (ui (run (initial_world 0) approved)) = messages (ui (run (initial_world 0) proposed))
   \<and> length (sent (run (initial_world 0) approved)) = 2
   \<and> history (body (sent (run (initial_world 0) approved) ! 1)) =
       [Turn assistant (JStr welcome_text)]"
  by (simp add: approved_def run_append run_proposed run_Cons step_def page_renders_def offered_def
      proposal_card_sel project_def proposal_def descriptor_def get_prop_def handleExecute_def
      exec_message_def vip_params_def after_execute_def chat_request_def Let_def greeting_def)

text \<open>
  Claim C7, amended. For a response that the handler accepts (a status from 200 to 299
  and a body that parses) the appended message has a pending action exactly when
  \<^verbatim>\<open>action_required\<close> is truthy; on the values that the interface of the endpoint
  declares (absent, \<^verbatim>\<open>null\<close> or an object) that is: present and not \<^verbatim>\<open>null\<close>. When the
  message renders, which it does exactly for a displayable response, the page shows the
  approval card in that case and no card otherwise; the card carries the descriptor's
  label, with the buttons unless the id of the message is already in
  \<^verbatim>\<open>resolvedActions\<close>. When the message does not render the page is gone.
\<close>

theorem card_iff_truthy_action_required:
  assumes "res = Response s (Some d)" and "ok s"
    and "ar = field d (lit ''action_required'')"
  shows "\<exists>m. messages (handleSend_resume ms res now st) = messages st @ [m]
          \<and> (actionRequired m \<noteq> None \<longleftrightarrow> truthy ar)
          \<and> render_card R m =
              (case render_throws m of
                 Some e \<Rightarrow> Inl e
               | None \<Rightarrow>
                   Inr (if truthy ar
                        then if id_msg m \<in> R then CompletedBadge (field ar (lit ''label''))
                             else ApprovalButtons (field ar (lit ''label''))
                        else NoCard))
          \<and> (page_renders (handleSend_resume ms res now st)
                \<longleftrightarrow> page_renders st \<and> render_throws m = None)
          \<and> (if d = JUndefined \<or> d = JNull then render_throws m = None
              else (render_throws m = None \<longleftrightarrow> displayable d))
          \<and> (if ar = JUndefined \<or> ar = JNull \<or> is_object ar
              then truthy ar \<longleftrightarrow> ar \<noteq> JUndefined \<and> ar \<noteq> JNull
              else True)"
proof -
  have t: "ar = JUndefined \<or> ar = JNull \<or> is_object ar \<Longrightarrow>
           truthy ar \<longleftrightarrow> ar \<noteq> JUndefined \<and> ar \<noteq> JNull"
    by (cases ar) auto
  show ?thesis
  proof (cases "send_reply ms d now")
    case (Inl e)
    then have n: "d = JUndefined \<or> d = JNull"
      by (auto simp: send_reply_def get_prop_def Let_def split: if_splits)
    then have "ar = JUndefined" using assms(3) by auto
    then show ?thesis
      using Inl assms(1,2) n
      by (auto simp: handleSend_resume_def render_card_def page_renders_append plain_reply_def)
  next
    case (Inr m)
    have n: "d \<noteq> JUndefined" "d \<noteq> JNull"
      using Inr by (auto simp: send_reply_def get_prop_def Let_def split: if_splits)
    have f: "content m = field d (lit ''content'')"
      "trace m = (if truthy (field d (lit ''trace'')) then field d (lit ''trace'') else JArr [])"
      using Inr by (auto simp: send_reply_def get_prop_def Let_def split: if_splits)
    have r: "render_throws m = None \<longleftrightarrow> displayable d"
      using send_reply_action [OF Inr] assms(3)
      by (cases "field d (lit ''trace'')")
         (auto simp: render_throws_def displayable_def f split: sum.splits)
    have c: "render_card R m =
              (case render_throws m of
                 Some e \<Rightarrow> Inl e
               | None \<Rightarrow>
                   Inr (if truthy ar
                        then if id_msg m \<in> R then CompletedBadge (field ar (lit ''label''))
                             else ApprovalButtons (field ar (lit ''label''))
                        else NoCard))"
      using send_reply_action [OF Inr] assms(3)
      by (auto simp: render_card_def split: option.splits)
    have a: "actionRequired m \<noteq> None \<longleftrightarrow> truthy ar"
      using send_reply_action [OF Inr] assms(3) by auto
    have m: "handleSend_resume ms res now st = st\<lparr>messages := messages st @ [m], isThinking := False\<rparr>"
      using Inr assms(1,2) by (simp add: handleSend_resume_def)
    show ?thesis
      using t n r c a by (simp add: m page_renders_append)
  qed
qed

theorem card_iff_truthy_action_required_witness:
  "ok 200 \<and> field proposal (lit ''action_required'') = descriptor \<and> truthy descriptor
   \<and> displayable proposal \<and> displayable done_reply
   \<and> (\<exists>m. messages (handleSend_resume [greeting] (Response 200 (Some proposal)) (ticks_once 2000) typed)
             = messages typed @ [m]
         \<and> render_card {} m = Inr (ApprovalButtons (JStr (lit ''Create list VIP''))))
   \<and> (\<exists>m. messages (handleSend_resume [greeting] (Response 200 (Some done_reply)) (ticks_once 2000) typed)
             = messages typed @ [m]
         \<and> render_card {} m = Inr NoCard \<and> actionRequired m = None)"
proof -
  have k: "ok 200"
    by (simp add: ok_def)
  have a1: "field proposal (lit ''action_required'') = descriptor"
    by (simp add: proposal_def)
  have o: "truthy descriptor"
    by (simp add: descriptor_def)
  have a2: "field done_reply (lit ''action_required'') = JUndefined"
    by (simp add: done_reply_def)
  have l: "field descriptor (lit ''label'') = JStr (lit ''Create list VIP'')"
    by (simp add: descriptor_def)
  have d1: "displayable proposal"
    by (simp add: displayable_def proposal_def descriptor_def)
  have d2: "displayable done_reply"
    by (simp add: displayable_def done_reply_def)
  have n: "proposal \<noteq> JUndefined" "proposal \<noteq> JNull" "done_reply \<noteq> JUndefined" "done_reply \<noteq> JNull"
    by (simp_all add: proposal_def done_reply_def)
  have 1: "\<exists>m. messages (handleSend_resume [greeting] (Response 200 (Some proposal)) (ticks_once 2000) typed)
             = messages typed @ [m]
         \<and> render_card {} m = Inr (ApprovalButtons (JStr (lit ''Create list VIP'')))"
    using card_iff_truthy_action_required [OF refl k a1 [symmetric],
        of "[greeting]" "ticks_once 2000" typed "{}"] o l d1 n
    by auto
  have 2: "\<exists>m. messages (handleSend_resume [greeting] (Response 200 (Some done_reply)) (ticks_once 2000) typed)
             = messages typed @ [m]
         \<and> render_card {} m = Inr NoCard \<and> actionRequired m = None"
    using card_iff_truthy_action_required [OF refl k a2 [symmetric],
        of "[greeting]" "ticks_once 2000" typed "{}"] d2 n
    by auto
  show ?thesis
    using k a1 o d1 d2 1 2 by blast
qed

text \<open>
  Claim C7 as stated has the card rendered exactly when the response contains a
  \<^verbatim>\<open>action_required\<close> that is not \<^verbatim>\<open>null\<close>. The code tests truthiness: the response
  \<open>refusal\<close> carries \<^verbatim>\<open>action_required: false\<close>, which is present and not \<^verbatim>\<open>null\<close>,
  and its message has no pending action and no card. And the card has to render: the
  response \<open>object_label\<close> carries a descriptor whose label is an object, its message has
  the pending action, and React throws on the label, so the page shows nothing.
\<close>

theorem no_card_for_false_or_object_label:
  "ok 200
   \<and> field refusal (lit ''action_required'') = JBool False
   \<and> actionRequired (last (messages
        (handleSend_resume [greeting] (Response 200 (Some refusal)) (ticks_once 2000) typed))) = None
   \<and> render_card {} (last (messages
        (handleSend_resume [greeting] (Response 200 (Some refusal)) (ticks_once 2000) typed)))
       = Inr NoCard
   \<and> is_object (field object_label (lit ''action_required''))
   \<and> actionRequired (last (messages
        (handleSend_resume [greeting] (Response 200 (Some object_label)) (ticks_once 2000) typed)))
       \<noteq> None
   \<and> render_card {} (last (messages
        (handleSend_resume [greeting] (Response 200 (Some object_label)) (ticks_once 2000) typed)))
       = Inl InvalidChild
   \<and> \<not> page_renders
        (handleSend_resume [greeting] (Response 200 (Some object_label)) (ticks_once 2000) typed)"
  by (simp add: ok_def refusal_def object_label_def handleSend_resume_def send_reply_def
      get_prop_def Let_def render_card_def render_throws_def page_renders_def)

text \<open>
  Claim C8. The synthetic message forwards at most one parameter of the proposal: the
  text \<^verbatim>\<open> Fallback Params: list_name="..."\<close> is appended exactly when \<^verbatim>\<open>params\<close> has a
  truthy \<^verbatim>\<open>list_name\<close>, and nothing else of \<^verbatim>\<open>params\<close> enters the message: two
  parameter values with the same \<^verbatim>\<open>list_name\<close> give the same message. Here \<open>l\<close> is the
  text that interpolating \<^verbatim>\<open>list_name\<close> gives.
\<close>

theorem execute_message_forwards_only_list_name:
  assumes "toStr (field ps (lit ''list_name'')) = Inr l"
  shows "exec_message (JStr a) ps =
           Inr (lit ''User approved action '' @ a @ lit ''. Please call execute_action now.'' @
                (if truthy (field ps (lit ''list_name''))
                 then lit '' Fallback Params: list_name='' @ [0x22] @ l @ [0x22] else []))
         \<and> (\<forall>ps'. field ps' (lit ''list_name'') = field ps (lit ''list_name'') \<longrightarrow>
                exec_message (JStr a) ps' = exec_message (JStr a) ps)"
proof -
  have f: "exec_message (JStr a) q =
             (if truthy (field q (lit ''list_name''))
              then (case toStr (field q (lit ''list_name'')) of
                      Inl e \<Rightarrow> Inl e
                    | Inr l \<Rightarrow> Inr (lit ''User approved action '' @ a @
                        lit ''. Please call execute_action now.'' @
                        lit '' Fallback Params: list_name='' @ [0x22] @ l @ [0x22]))
              else Inr (lit ''User approved action '' @ a @
                        lit ''. Please call execute_action now.''))" for q
    using truthy_field [of q "lit ''list_name''"]
    by (auto simp: exec_message_def Let_def split: sum.splits)
  show ?thesis
    by (simp add: f assms)
qed

theorem execute_message_forwards_only_list_name_witness:
  "toStr (field vip_params (lit ''list_name'')) = Inr (lit ''VIP'')
   \<and> exec_message (JStr (lit ''a1'')) vip_params =
       Inr (lit ''User approved action '' @ lit ''a1'' @ lit ''. Please call execute_action now.'' @
            lit '' Fallback Params: list_name='' @ [0x22] @ lit ''VIP'' @ [0x22])
   \<and> exec_message (JStr (lit ''a1'')) (JObj [(lit ''list_name'', JStr (lit ''VIP''))]) =
       exec_message (JStr (lit ''a1'')) vip_params"
proof -
  have h: "toStr (field vip_params (lit ''list_name'')) = Inr (lit ''VIP'')"
    by (simp add: vip_params_def)
  have t: "truthy (field vip_params (lit ''list_name''))"
    by (simp add: vip_params_def)
  have e: "field (JObj [(lit ''list_name'', JStr (lit ''VIP''))]) (lit ''list_name'') =
           field vip_params (lit ''list_name'')"
    by (simp add: vip_params_def)
  show ?thesis
    using h t e execute_message_forwards_only_list_name [OF h, of "lit ''a1''"]
    by simp
qed




text \<open>
  Claim C10. The message that the execute path appends, whether the request succeeds,
  fails, or is never issued because building its text throws, has no
  \<^verbatim>\<open>actionRequired\<close>, so whatever \<^verbatim>\<open>resolvedActions\<close> holds its render gives no card:
  neither the buttons nor the badge.
\<close>

theorem execute_reply_has_no_action:
  "(\<exists>m. messages (handleExecute_resume res now st) = messages st @ [m] \<and> role m = assistant
        \<and> actionRequired m = None
        \<and> render_card R m = (case render_throws m of Some e \<Rightarrow> Inl e | None \<Rightarrow> Inr NoCard)
        \<and> render_card R m \<noteq> Inr (ApprovalButtons lbl)
        \<and> render_card R m \<noteq> Inr (CompletedBadge lbl))
   \<and> (messages (fst (handleExecute ms a ps now st)) = messages st
       \<or> (\<exists>m. messages (fst (handleExecute ms a ps now st)) = messages st @ [m]
             \<and> role m = assistant \<and> actionRequired m = None
             \<and> render_card R m = Inr NoCard))"
  by (auto simp: handleExecute_resume_def handleExecute_def exec_reply_def plain_reply_def
      render_card_def Let_def split: sum.splits option.splits)

end
